theory Spec2Isabelle
  imports Complex_Main "HOL-Library.Sublist"
begin

section \<open>Python values\<close>

text \<open>
  The values that travel through \<^verbatim>\<open>weather.py\<close>: the two arguments of the tool
  and the decoded JSON body of a response. A Python \<^verbatim>\<open>float\<close> is a finite number, an
  infinity or a NaN; a finite float is read as the real number it denotes, which is all that
  the comparisons of the source look at. A \<^verbatim>\<open>dict\<close> is an association list in
  insertion order; a Python dict has no duplicate keys, and \<open>map_of\<close> looks a key up.
\<close>

datatype pyfloat = Finite real | PosInf | NegInf | NaN

datatype pyval =
    PNone
  | PBool bool
  | PInt int
  | PFloat pyfloat
  | PStr string
  | PList "pyval list"
  | PDict "(string \<times> pyval) list"

text \<open>An exception carries the text that \<^verbatim>\<open>str(e)\<close> gives.\<close>

datatype exn =
    WeatherAPIError string
  | KeyError string
  | IndexError string
  | AttributeError string
  | TypeError string
  | OverflowError string
  | OtherError string

fun exn_message :: "exn \<Rightarrow> string" where
  "exn_message (WeatherAPIError m) = m"
| "exn_message (KeyError m) = m"
| "exn_message (IndexError m) = m"
| "exn_message (AttributeError m) = m"
| "exn_message (TypeError m) = m"
| "exn_message (OverflowError m) = m"
| "exn_message (OtherError m) = m"

fun type_name :: "pyval \<Rightarrow> string" where
  "type_name PNone = ''NoneType''"
| "type_name (PBool _) = ''bool''"
| "type_name (PInt _) = ''int''"
| "type_name (PFloat _) = ''float''"
| "type_name (PStr _) = ''str''"
| "type_name (PList _) = ''list''"
| "type_name (PDict _) = ''dict''"

text \<open>A name between single quotes, as Python's messages write it.\<close>

definition quoted :: "string \<Rightarrow> string" where
  "quoted s = CHR 0x27 # s @ [CHR 0x27]"

text \<open>Truth value of an object, as \<^verbatim>\<open>not x\<close> tests it.\<close>

fun truthy :: "pyval \<Rightarrow> bool" where
  "truthy PNone = False"
| "truthy (PBool b) = b"
| "truthy (PInt i) = (i \<noteq> 0)"
| "truthy (PFloat f) = (f \<noteq> Finite 0)"
| "truthy (PStr s) = (s \<noteq> [])"
| "truthy (PList xs) = (xs \<noteq> [])"
| "truthy (PDict kvs) = (kvs \<noteq> [])"

text \<open>\<^verbatim>\<open>isinstance(x, (int, float))\<close>; \<^verbatim>\<open>bool\<close> is a subclass of \<^verbatim>\<open>int\<close>.\<close>

fun is_number :: "pyval \<Rightarrow> bool" where
  "is_number (PBool _) = True"
| "is_number (PInt _) = True"
| "is_number (PFloat _) = True"
| "is_number _ = False"

text \<open>\<^verbatim>\<open>isinstance(x, list)\<close>.\<close>

fun is_list :: "pyval \<Rightarrow> bool" where
  "is_list (PList _) = True"
| "is_list _ = False"

text \<open>The number a numeric object denotes; Python compares ints and floats exactly.\<close>

fun as_number :: "pyval \<Rightarrow> pyfloat option" where
  "as_number (PBool b) = Some (Finite (if b then 1 else 0))"
| "as_number (PInt i) = Some (Finite (of_int i))"
| "as_number (PFloat f) = Some f"
| "as_number _ = None"

fun float_lt :: "pyfloat \<Rightarrow> pyfloat \<Rightarrow> bool" where
  "float_lt NaN _ = False"
| "float_lt _ NaN = False"
| "float_lt (Finite x) (Finite y) = (x < y)"
| "float_lt (Finite _) PosInf = True"
| "float_lt (Finite _) NegInf = False"
| "float_lt PosInf _ = False"
| "float_lt NegInf NegInf = False"
| "float_lt NegInf _ = True"

text \<open>\<^verbatim>\<open>x < n\<close> and \<^verbatim>\<open>x > n\<close> against an int literal; other operand types raise.\<close>

definition py_lt :: "pyval \<Rightarrow> int \<Rightarrow> exn + bool" where
  "py_lt v n =
     (case as_number v of
        None \<Rightarrow> Inl (TypeError (''unsupported operand: '' @ type_name v @ '' < int''))
      | Some x \<Rightarrow> Inr (float_lt x (Finite (of_int n))))"

definition py_gt :: "pyval \<Rightarrow> int \<Rightarrow> exn + bool" where
  "py_gt v n =
     (case as_number v of
        None \<Rightarrow> Inl (TypeError (''unsupported operand: '' @ type_name v @ '' > int''))
      | Some x \<Rightarrow> Inr (float_lt (Finite (of_int n)) x))"

text \<open>\<^verbatim>\<open>v.get(key, default)\<close>: only a dict has the method.\<close>

fun dict_get :: "pyval \<Rightarrow> string \<Rightarrow> pyval \<Rightarrow> exn + pyval" where
  "dict_get (PDict kvs) k dflt = Inr (case map_of kvs k of None \<Rightarrow> dflt | Some v \<Rightarrow> v)"
| "dict_get v k dflt =
     Inl (AttributeError (quoted (type_name v) @ '' object has no attribute '' @ quoted ''get''))"

text \<open>\<^verbatim>\<open>v[0]\<close>.\<close>

fun getitem0 :: "pyval \<Rightarrow> exn + pyval" where
  "getitem0 (PList []) = Inl (IndexError ''list index out of range'')"
| "getitem0 (PList (x # _)) = Inr x"
| "getitem0 (PStr []) = Inl (IndexError ''string index out of range'')"
| "getitem0 (PStr (c # _)) = Inr (PStr [c])"
| "getitem0 (PDict _) = Inl (KeyError ''0'')"
| "getitem0 v = Inl (TypeError (quoted (type_name v) @ '' object is not subscriptable''))"

text \<open>\<^verbatim>\<open>len(v)\<close>.\<close>

fun py_len :: "pyval \<Rightarrow> exn + nat" where
  "py_len (PList xs) = Inr (length xs)"
| "py_len (PStr s) = Inr (length s)"
| "py_len (PDict kvs) = Inr (length kvs)"
| "py_len v = Inl (TypeError (''object of type '' @ quoted (type_name v) @ '' has no len()''))"

text \<open>The items a \<^verbatim>\<open>for\<close> loop draws from an object.\<close>

fun py_iter :: "pyval \<Rightarrow> exn + pyval list" where
  "py_iter (PList xs) = Inr xs"
| "py_iter (PStr s) = Inr (map (\<lambda>c. PStr [c]) s)"
| "py_iter (PDict kvs) = Inr (map (\<lambda>kv. PStr (fst kv)) kvs)"
| "py_iter v = Inl (TypeError (quoted (type_name v) @ '' object is not iterable''))"

text \<open>
  A replacement field \<^verbatim>\<open>{v}\<close> of an f-string. A \<^verbatim>\<open>str\<close> is inserted as it is;
  for every other value Python inserts \<^verbatim>\<open>str(v)\<close>, which the model takes as the
  parameter \<open>str_of\<close>.
\<close>

definition format_value :: "(pyval \<Rightarrow> string) \<Rightarrow> pyval \<Rightarrow> string" where
  "format_value str_of v = (case v of PStr s \<Rightarrow> s | _ \<Rightarrow> str_of v)"

text \<open>\<^verbatim>\<open>str(n)\<close> of an int, in decimal.\<close>

fun str_nat :: "nat \<Rightarrow> string" where
  "str_nat n =
     (if n < 10 then [''0123456789'' ! n]
      else str_nat (n div 10) @ [''0123456789'' ! (n mod 10)])"

declare str_nat.simps [simp del]

definition str_int :: "int \<Rightarrow> string" where
  "str_int i = (if i < 0 then CHR ''-'' # str_nat (nat (- i)) else str_nat (nat i))"

text \<open>\<^verbatim>\<open>sep.join(xs)\<close>.\<close>

fun py_join :: "string \<Rightarrow> string list \<Rightarrow> string" where
  "py_join sep [] = []"
| "py_join sep [x] = x"
| "py_join sep (x # y # ys) = x @ sep @ py_join sep (y # ys)"

section \<open>The request executor\<close>

definition MAX_RETRIES :: int where
  "MAX_RETRIES = 2"

definition RETRY_DELAY :: real where
  "RETRY_DELAY = 1"

text \<open>
  What one pass through the \<^verbatim>\<open>try\<close> block of \<^verbatim>\<open>make_gc_request\<close> meets: a response
  whose status check passes and whose body decodes to a value, an
  \<^verbatim>\<open>httpx.HTTPStatusError\<close> with its status code, an \<^verbatim>\<open>httpx.RequestError\<close>
  (timeouts are among them), or any other exception. The strings are \<^verbatim>\<open>str(e)\<close>.
\<close>

datatype attempt_outcome =
    Response pyval
  | HTTPStatusError int string
  | RequestError string
  | OtherException string

text \<open>What the handlers of the \<^verbatim>\<open>try\<close> block decide.\<close>

datatype step = Return pyval | Raise exn | Retry string

fun classify :: "attempt_outcome \<Rightarrow> step" where
  "classify (Response v) = Return v"
| "classify (HTTPStatusError status_code e) =
     (if 400 \<le> status_code \<and> status_code < 500 \<and> status_code \<noteq> 429
      then Raise (WeatherAPIError (''Client error: '' @ e))
      else Retry e)"
| "classify (RequestError e) = Retry e"
| "classify (OtherException e) = Raise (WeatherAPIError (''Unexpected error: '' @ e))"

text \<open>
  \<^verbatim>\<open>RETRY_DELAY * (2 ** (attempt - 1))\<close>: the power is an int, the product a float.
  Python converts the int to a float first and raises \<^verbatim>\<open>OverflowError\<close> when it is
  \<open>2 ^ 1024\<close> or more; below that a power of two is a float exactly.
\<close>

definition wait_time :: "int \<Rightarrow> exn + real" where
  "wait_time attempt =
     (if attempt - 1 \<ge> 1024 then Inl (OverflowError ''int too large to convert to float'')
      else Inr (RETRY_DELAY * 2 ^ nat (attempt - 1)))"

text \<open>
  The effects of the executor that can be observed from outside: a request sent, and a
  suspension of \<^verbatim>\<open>asyncio.sleep\<close> with its delay in seconds.
\<close>

datatype event = Request | Sleep real

fun count_requests :: "event list \<Rightarrow> nat" where
  "count_requests [] = 0"
| "count_requests (Request # es) = Suc (count_requests es)"
| "count_requests (Sleep w # es) = count_requests es"

fun delays :: "event list \<Rightarrow> real list" where
  "delays [] = []"
| "delays (Request # es) = delays es"
| "delays (Sleep w # es) = w # delays es"

text \<open>A run of the executor: what it returned or raised, and its effects in order.\<close>

record run =
  result :: "exn + pyval"
  trace :: "event list"

text \<open>
  The \<^verbatim>\<open>while attempt <= retries\<close> loop. \<open>net k\<close> is the outcome of the request of
  the pass with \<open>attempt = k\<close>; \<open>last_error\<close> is \<^verbatim>\<open>str(last_error)\<close>, \<open>None\<close>
  while it is unset; \<open>done\<close> holds the effects so far.
\<close>

function make_gc_loop ::
  "(nat \<Rightarrow> attempt_outcome) \<Rightarrow> int \<Rightarrow> int \<Rightarrow> string option \<Rightarrow> event list \<Rightarrow> run"
where
  "make_gc_loop net retries attempt last_error done =
     (if attempt \<le> retries then
        (case classify (net (nat attempt)) of
           Return v \<Rightarrow> \<lparr>result = Inr v, trace = done @ [Request]\<rparr>
         | Raise e \<Rightarrow> \<lparr>result = Inl e, trace = done @ [Request]\<rparr>
         | Retry e \<Rightarrow>
             (if attempt + 1 \<le> retries then
                (case wait_time (attempt + 1) of
                   Inl x \<Rightarrow> \<lparr>result = Inl x, trace = done @ [Request]\<rparr>
                 | Inr w \<Rightarrow>
                     make_gc_loop net retries (attempt + 1) (Some e) (done @ [Request, Sleep w]))
              else make_gc_loop net retries (attempt + 1) (Some e) (done @ [Request])))
      else
        \<lparr>result = Inl (WeatherAPIError
           (''Failed after '' @ str_int (retries + 1) @ '' attempts: ''
              @ (case last_error of None \<Rightarrow> ''None'' | Some e \<Rightarrow> e))),
         trace = done\<rparr>)"
  by pat_completeness auto
termination
  by (relation "measure (\<lambda>(net, retries, attempt, last_error, done). nat (retries + 1 - attempt))")
    auto

declare make_gc_loop.simps [simp del]

definition make_gc_request :: "(nat \<Rightarrow> attempt_outcome) \<Rightarrow> int \<Rightarrow> run" where
  "make_gc_request net retries = make_gc_loop net retries 0 None []"

section \<open>The formatter\<close>

text \<open>
  The body of the \<^verbatim>\<open>for\<close> loop of \<^verbatim>\<open>format_forecast\<close> over the items still to come,
  with the list \<open>forecasts\<close> and the counter \<open>days_added\<close> as they stand. The lookup
  of the period label is evaluated for every item, before the cap is looked at.
\<close>

fun format_loop ::
  "(pyval \<Rightarrow> string) \<Rightarrow> int \<Rightarrow> pyval list \<Rightarrow> string list \<Rightarrow> int \<Rightarrow> exn + string list"
where
  "format_loop str_of max_days [] forecasts days_added = Inr forecasts"
| "format_loop str_of max_days (day # rest) forecasts days_added =
     (case dict_get day ''periodLabel'' PNone of
        Inl e \<Rightarrow> Inl e
      | Inr label \<Rightarrow>
          if label = PStr ''Night'' \<or> days_added \<ge> max_days
          then format_loop str_of max_days rest forecasts days_added
          else
            (case dict_get day ''date'' (PStr ''Unknown date'') of
               Inl e \<Rightarrow> Inl e
             | Inr date \<Rightarrow>
                 (case dict_get day ''text'' (PStr ''No forecast available'') of
                    Inl e \<Rightarrow> Inl e
                  | Inr text \<Rightarrow>
                      format_loop str_of max_days rest
                        (forecasts @
                           [''\<newline>'' @ format_value str_of date @ '':\<newline>Forecast: ''
                              @ format_value str_of text @ ''\<newline>''])
                        (days_added + 1))))"

definition format_forecast :: "(pyval \<Rightarrow> string) \<Rightarrow> pyval \<Rightarrow> int \<Rightarrow> exn + string" where
  "format_forecast str_of daily_forecast max_days =
     (case py_iter daily_forecast of
        Inl e \<Rightarrow> Inl e
      | Inr items \<Rightarrow>
          (case format_loop str_of max_days items [] 0 of
             Inl e \<Rightarrow> Inl e
           | Inr forecasts \<Rightarrow>
               if forecasts = [] then Inr ''No forecast data available''
               else Inr (py_join ''\<newline>---\<newline>'' forecasts)))"

section \<open>The tool\<close>

text \<open>\<^verbatim>\<open>v < lo or v > hi\<close>, the second comparison only when the first is false.\<close>

definition out_of_range :: "pyval \<Rightarrow> int \<Rightarrow> int \<Rightarrow> exn + bool" where
  "out_of_range v lo hi =
     (case py_lt v lo of
        Inl e \<Rightarrow> Inl e
      | Inr below \<Rightarrow> if below then Inr True else py_gt v hi)"

text \<open>
  The \<^verbatim>\<open>try\<close> block of \<^verbatim>\<open>get_forecast\<close> from the call of the executor on;
  \<open>api_result\<close> is what that call returned or raised.
\<close>

definition forecast_body :: "(pyval \<Rightarrow> string) \<Rightarrow> exn + pyval \<Rightarrow> exn + string" where
  "forecast_body str_of api_result =
     (case api_result of
        Inl e \<Rightarrow> Inl e
      | Inr api_response \<Rightarrow>
          if \<not> truthy api_response then Inr ''Unable to fetch forecast data for this location''
          else if \<not> is_list api_response
            then Inr ''Unable to fetch forecast data for this location''
          else
            (case py_len api_response of
               Inl e \<Rightarrow> Inl e
             | Inr n \<Rightarrow>
                 if n = 0 then Inr ''Unable to fetch forecast data for this location''
                 else
                   (case getitem0 api_response of
                      Inl e \<Rightarrow> Inl e
                    | Inr forecast_data \<Rightarrow>
                        (case dict_get forecast_data ''dailyFcst'' (PDict []) of
                           Inl e \<Rightarrow> Inl e
                         | Inr daily_fcst \<Rightarrow>
                             (case dict_get daily_fcst ''daily'' (PList []) of
                                Inl e \<Rightarrow> Inl e
                              | Inr daily_forecast \<Rightarrow>
                                  if \<not> truthy daily_forecast
                                  then Inr ''No forecast data available for this location''
                                  else format_forecast str_of daily_forecast 5)))))"

text \<open>The three \<^verbatim>\<open>except\<close> clauses, in their order.\<close>

fun handlers :: "exn + string \<Rightarrow> exn + string" where
  "handlers (Inr s) = Inr s"
| "handlers (Inl (WeatherAPIError m)) = Inr (''Weather API error: '' @ m)"
| "handlers (Inl (KeyError m)) = Inr (''Unable to process forecast data: missing key '' @ m)"
| "handlers (Inl e) = Inr (''Error processing forecast data: '' @ exn_message e)"

text \<open>
  What a call of the tool gives: the string returned or the exception that escapes, and
  the number of requests sent on the way.
\<close>

record outcome =
  answer :: "exn + string"
  net_requests :: nat

text \<open>
  \<^verbatim>\<open>get_forecast\<close> with the call of the executor as a parameter (the tests replace it):
  \<open>call\<close> is the run that \<^verbatim>\<open>await make_gc_request(forecast_url)\<close> makes if it is
  reached.
\<close>

definition get_forecast_with ::
  "(pyval \<Rightarrow> string) \<Rightarrow> run \<Rightarrow> pyval \<Rightarrow> pyval \<Rightarrow> outcome"
where
  "get_forecast_with str_of call latitude longitude =
     (if \<not> is_number latitude \<or> \<not> is_number longitude
      then \<lparr>answer = Inr ''Error: Latitude and longitude must be numbers'', net_requests = 0\<rparr>
      else
        (case out_of_range latitude (- 90) 90 of
           Inl e \<Rightarrow> \<lparr>answer = Inl e, net_requests = 0\<rparr>
         | Inr lat_bad \<Rightarrow>
             if lat_bad
             then \<lparr>answer = Inr ''Error: Latitude must be between -90 and 90 degrees'',
                    net_requests = 0\<rparr>
             else
               (case out_of_range longitude (- 180) 180 of
                  Inl e \<Rightarrow> \<lparr>answer = Inl e, net_requests = 0\<rparr>
                | Inr lon_bad \<Rightarrow>
                    if lon_bad
                    then \<lparr>answer = Inr ''Error: Longitude must be between -180 and 180 degrees'',
                           net_requests = 0\<rparr>
                    else \<lparr>answer = handlers (forecast_body str_of (result call)),
                           net_requests = count_requests (trace call)\<rparr>)))"

text \<open>\<^verbatim>\<open>get_forecast\<close> over the network \<open>net\<close>, with the default number of retries.\<close>

definition get_forecast ::
  "(pyval \<Rightarrow> string) \<Rightarrow> (nat \<Rightarrow> attempt_outcome) \<Rightarrow> pyval \<Rightarrow> pyval \<Rightarrow> outcome"
where
  "get_forecast str_of net latitude longitude =
     get_forecast_with str_of (make_gc_request net MAX_RETRIES) latitude longitude"

section \<open>Notions of the specification\<close>

text \<open>
  The outcomes the specification calls retryable: status 429, a status of 500 or more,
  or a transport-level error.
\<close>

fun retryable :: "attempt_outcome \<Rightarrow> bool" where
  "retryable (HTTPStatusError status_code e) = (status_code = 429 \<or> status_code \<ge> 500)"
| "retryable (RequestError e) = True"
| "retryable _ = False"

text \<open>The text of the error an attempt ended with.\<close>

fun error_text :: "attempt_outcome \<Rightarrow> string" where
  "error_text (HTTPStatusError status_code e) = e"
| "error_text (RequestError e) = e"
| "error_text (OtherException e) = e"
| "error_text (Response v) = []"

text \<open>
  The schedule of the specification for \<open>n\<close> requests, the first of them the attempt
  with index \<open>k\<close>: between two requests a sleep of \<open>RETRY_DELAY * 2 ^ k\<close> seconds for
  the retry after attempt \<open>k\<close>, and nothing after the last request.
\<close>

fun backoff_trace :: "nat \<Rightarrow> nat \<Rightarrow> event list" where
  "backoff_trace k 0 = []"
| "backoff_trace k (Suc 0) = [Request]"
| "backoff_trace k (Suc (Suc n)) =
     Request # Sleep (RETRY_DELAY * 2 ^ k) # backoff_trace (Suc k) (Suc n)"

text \<open>
  The outcomes after which the executor makes no further attempt: a success, a client
  error (a status in [400, 500) other than 429), or an unexpected exception.
\<close>

fun ends_run :: "attempt_outcome \<Rightarrow> bool" where
  "ends_run (Response v) = True"
| "ends_run (HTTPStatusError status_code e) =
     (400 \<le> status_code \<and> status_code < 500 \<and> status_code \<noteq> 429)"
| "ends_run (RequestError e) = False"
| "ends_run (OtherException e) = True"

text \<open>
  The number of attempts the specification lets a run make, from the attempt with index
  \<open>k\<close> on, when \<open>n\<close> attempts are still permitted: an attempt that succeeds or fails
  fatally is the last one, and any other failure is followed by another attempt only
  while one is permitted. With \<open>retries\<close> retries, \<open>retries + 1\<close> attempts are
  permitted.
\<close>

fun attempts_from :: "(nat \<Rightarrow> attempt_outcome) \<Rightarrow> nat \<Rightarrow> nat \<Rightarrow> nat" where
  "attempts_from net k 0 = 0"
| "attempts_from net k (Suc n) =
     (if ends_run (net k) then 1 else Suc (attempts_from net (Suc k) n))"

definition attempts :: "(nat \<Rightarrow> attempt_outcome) \<Rightarrow> int \<Rightarrow> nat" where
  "attempts net retries = attempts_from net 0 (nat (retries + 1))"

text \<open>Four servers: one that always answers 404, one that always answers 503, one that
  always answers an empty JSON array, and one that answers 500 twice and then an empty JSON
  array.\<close>

definition always_404 :: "nat \<Rightarrow> attempt_outcome" where
  "always_404 k = HTTPStatusError 404 ''Not Found''"

definition always_503 :: "nat \<Rightarrow> attempt_outcome" where
  "always_503 k = HTTPStatusError 503 ''Service Unavailable''"

definition always_ok :: "nat \<Rightarrow> attempt_outcome" where
  "always_ok k = Response (PList [])"

definition fail_fail_ok :: "nat \<Rightarrow> attempt_outcome" where
  "fail_fail_ok k =
     (if k < 2 then HTTPStatusError 500 ''Internal Server Error'' else Response (PList []))"

text \<open>
  The entries of a daily forecast are JSON objects. \<open>field d k\<close> is the value an entry
  holds under a key, \<open>None\<close> when the key is absent.
\<close>

fun is_dict :: "pyval \<Rightarrow> bool" where
  "is_dict (PDict _) = True"
| "is_dict _ = False"

fun field :: "pyval \<Rightarrow> string \<Rightarrow> pyval option" where
  "field (PDict kvs) k = map_of kvs k"
| "field _ k = None"

text \<open>The period label, the date and the narrative text of an entry as the specification
  reads them, and the block it renders for an entry.\<close>

definition period_label :: "pyval \<Rightarrow> pyval option" where
  "period_label d = field d ''periodLabel''"

definition entry_date :: "(pyval \<Rightarrow> string) \<Rightarrow> pyval \<Rightarrow> string" where
  "entry_date str_of d =
     (case field d ''date'' of None \<Rightarrow> ''Unknown date'' | Some v \<Rightarrow> format_value str_of v)"

definition entry_text :: "(pyval \<Rightarrow> string) \<Rightarrow> pyval \<Rightarrow> string" where
  "entry_text str_of d =
     (case field d ''text'' of None \<Rightarrow> ''No forecast available'' | Some v \<Rightarrow> format_value str_of v)"

definition entry_block :: "(pyval \<Rightarrow> string) \<Rightarrow> pyval \<Rightarrow> string" where
  "entry_block str_of d =
     ''\<newline>'' @ entry_date str_of d @ '':\<newline>Forecast: '' @ entry_text str_of d @ ''\<newline>''"

text \<open>
  The entries the specification retains: those whose label is not \<^verbatim>\<open>"Night"\<close>, in
  their order, up to the cap. The rendering of the retained entries is the sentinel when
  there is none, and the blocks between separators otherwise.
\<close>

definition retained :: "int \<Rightarrow> pyval list \<Rightarrow> pyval list" where
  "retained max_days ds =
     take (nat max_days) (filter (\<lambda>d. period_label d \<noteq> Some (PStr ''Night'')) ds)"

definition rendered :: "(pyval \<Rightarrow> string) \<Rightarrow> pyval list \<Rightarrow> string" where
  "rendered str_of es =
     (if es = [] then ''No forecast data available''
      else py_join ''\<newline>---\<newline>'' (map (entry_block str_of) es))"

text \<open>\<^verbatim>\<open>str\<close> on \<^verbatim>\<open>None\<close>, the booleans and the ints, for the concrete runs below.\<close>

definition str_basic :: "pyval \<Rightarrow> string" where
  "str_basic v =
     (case v of PNone \<Rightarrow> ''None'' | PBool b \<Rightarrow> (if b then ''True'' else ''False'')
      | PInt i \<Rightarrow> str_int i | _ \<Rightarrow> [])"

text \<open>
  Concrete daily forecasts: the one of the test suite, one whose day and night carry the
  same text, and one with unusual period labels.
\<close>

definition day_entry :: "string \<Rightarrow> string \<Rightarrow> string \<Rightarrow> pyval" where
  "day_entry date label text =
     PDict [(''date'', PStr date), (''periodLabel'', PStr label), (''text'', PStr text)]"

definition sample_daily :: "pyval list" where
  "sample_daily =
     [day_entry ''2023-01-01'' ''Day'' ''Sunny with cloudy periods'',
      day_entry ''2023-01-01'' ''Night'' ''Clear'',
      day_entry ''2023-01-02'' ''Day'' ''Cloudy with chance of rain'',
      day_entry ''2023-01-02'' ''Night'' ''Cloudy'',
      day_entry ''2023-01-03'' ''Day'' ''Sunny'']"

definition clear_day_night :: "pyval list" where
  "clear_day_night =
     [day_entry ''2023-01-01'' ''Day'' ''Clear'', day_entry ''2023-01-01'' ''Night'' ''Clear'']"

definition odd_labels :: "pyval list" where
  "odd_labels =
     [PDict [(''date'', PStr ''d1''), (''text'', PStr ''t1'')],
      day_entry ''d2'' ''day'' ''t2'',
      day_entry ''d3'' ''Night'' ''t3'',
      day_entry ''d4'' ''Evening'' ''t4'',
      day_entry ''d5'' ''Day'' ''t5'']"

section \<open>Properties of the request executor\<close>

lemma classify_retryable: "retryable out \<Longrightarrow> classify out = Retry (error_text out)"
  by (cases out) auto

lemma client_error_stops_loop:
  assumes "attempt \<le> retries" "net (nat attempt) = HTTPStatusError status_code e"
    "400 \<le> status_code" "status_code < 500" "status_code \<noteq> 429"
  shows "make_gc_loop net retries attempt last_error done =
    \<lparr>result = Inl (WeatherAPIError (''Client error: '' @ e)), trace = done @ [Request]\<rparr>"
  using assms by (subst make_gc_loop.simps) simp

lemma count_requests_append: "count_requests (xs @ ys) = count_requests xs + count_requests ys"
  by (induction xs rule: count_requests.induct) auto

lemma count_backoff: "count_requests (backoff_trace k n) = n"
  by (induction k n rule: backoff_trace.induct) auto

lemma delays_append: "delays (xs @ ys) = delays xs @ delays ys"
  by (induction xs rule: delays.induct) auto

lemma delays_backoff: "delays (backoff_trace k n) = map (\<lambda>i. RETRY_DELAY * 2 ^ i) [k ..< k + n - 1]"
proof (induction k n rule: backoff_trace.induct)
  case (3 k n)
  have "[k ..< k + Suc (Suc n) - 1] = k # [Suc k ..< Suc k + Suc n - 1]"
    by (simp add: upt_conv_Cons)
  with 3 show ?case by simp
qed auto

lemma wait_time_small: "0 \<le> attempt \<Longrightarrow> attempt \<le> 1023 \<Longrightarrow>
    wait_time (attempt + 1) = Inr (RETRY_DELAY * 2 ^ nat attempt)"
  by (simp add: wait_time_def)

lemma wait_time_overflow: "wait_time 1025 = Inl (OverflowError ''int too large to convert to float'')"
  by (simp add: wait_time_def)

lemma loop_past_end:
  "retries < attempt \<Longrightarrow> make_gc_loop net retries attempt last_error done =
     \<lparr>result = Inl (WeatherAPIError
        (''Failed after '' @ str_int (retries + 1) @ '' attempts: ''
           @ (case last_error of None \<Rightarrow> ''None'' | Some e \<Rightarrow> e))),
      trace = done\<rparr>"
  by (subst make_gc_loop.simps) simp

lemma loop_retry_sleep:
  "attempt + 1 \<le> retries \<Longrightarrow> classify (net (nat attempt)) = Retry e \<Longrightarrow>
   wait_time (attempt + 1) = Inr w \<Longrightarrow>
   make_gc_loop net retries attempt last_error done =
     make_gc_loop net retries (attempt + 1) (Some e) (done @ [Request, Sleep w])"
  by (subst make_gc_loop.simps) simp

lemma loop_retry_last:
  "attempt = retries \<Longrightarrow> classify (net (nat attempt)) = Retry e \<Longrightarrow>
   make_gc_loop net retries attempt last_error done =
     make_gc_loop net retries (attempt + 1) (Some e) (done @ [Request])"
  by (subst make_gc_loop.simps) simp

lemma loop_retry_overflow:
  "attempt + 1 \<le> retries \<Longrightarrow> classify (net (nat attempt)) = Retry e \<Longrightarrow>
   wait_time (attempt + 1) = Inl x \<Longrightarrow>
   make_gc_loop net retries attempt last_error done =
     \<lparr>result = Inl x, trace = done @ [Request]\<rparr>"
  by (subst make_gc_loop.simps) simp

lemma loop_exhausts:
  assumes retr: "\<And>k. retryable (net k)" and small: "retries \<le> 1024"
  shows "0 \<le> attempt \<Longrightarrow> attempt \<le> retries \<Longrightarrow> n = nat (retries - attempt) \<Longrightarrow>
    make_gc_loop net retries attempt last_error done =
      \<lparr>result = Inl (WeatherAPIError (''Failed after '' @ str_int (retries + 1) @ '' attempts: ''
           @ error_text (net (nat retries)))),
       trace = done @ backoff_trace (nat attempt) (Suc n)\<rparr>"
proof (induction n arbitrary: attempt last_error "done")
  case 0
  then have eq: "attempt = retries" by simp
  have cl: "classify (net (nat attempt)) = Retry (error_text (net (nat attempt)))"
    by (rule classify_retryable [OF retr])
  have "make_gc_loop net retries attempt last_error done =
      make_gc_loop net retries (attempt + 1) (Some (error_text (net (nat attempt)))) (done @ [Request])"
    by (rule loop_retry_last [where net = net, OF eq cl])
  also have "\<dots> =
      \<lparr>result = Inl (WeatherAPIError (''Failed after '' @ str_int (retries + 1) @ '' attempts: ''
           @ error_text (net (nat retries)))),
       trace = done @ backoff_trace (nat attempt) (Suc 0)\<rparr>"
    using eq by (simp add: loop_past_end)
  finally show ?case .
next
  case (Suc n)
  then have lt: "attempt + 1 \<le> retries" by simp
  have cl: "classify (net (nat attempt)) = Retry (error_text (net (nat attempt)))"
    by (rule classify_retryable [OF retr])
  have w: "wait_time (attempt + 1) = Inr (RETRY_DELAY * 2 ^ nat attempt)"
    using Suc.prems lt small by (intro wait_time_small) auto
  have nat_eq: "nat (attempt + 1) = Suc (nat attempt)" using Suc.prems by simp
  have "make_gc_loop net retries (attempt + 1) (Some (error_text (net (nat attempt))))
          (done @ [Request, Sleep (RETRY_DELAY * 2 ^ nat attempt)]) =
      \<lparr>result = Inl (WeatherAPIError (''Failed after '' @ str_int (retries + 1) @ '' attempts: ''
           @ error_text (net (nat retries)))),
       trace = (done @ [Request, Sleep (RETRY_DELAY * 2 ^ nat attempt)])
          @ backoff_trace (nat (attempt + 1)) (Suc n)\<rparr>"
    using Suc.prems lt by (intro Suc.IH) auto
  then show ?case
    by (simp add: loop_retry_sleep [where net = net, OF lt cl w] nat_eq)
qed

lemma loop_overflows:
  assumes retr: "\<And>k. retryable (net k)" and big: "1025 \<le> retries"
  shows "0 \<le> attempt \<Longrightarrow> attempt \<le> 1024 \<Longrightarrow> n = nat (1024 - attempt) \<Longrightarrow>
    make_gc_loop net retries attempt last_error done =
      \<lparr>result = Inl (OverflowError ''int too large to convert to float''),
       trace = done @ backoff_trace (nat attempt) (Suc n)\<rparr>"
proof (induction n arbitrary: attempt last_error "done")
  case 0
  then have eq: "attempt = 1024" by simp
  have cl: "classify (net (nat attempt)) = Retry (error_text (net (nat attempt)))"
    by (rule classify_retryable [OF retr])
  have lt: "attempt + 1 \<le> retries" using eq big by simp
  have w: "wait_time (attempt + 1) = Inl (OverflowError ''int too large to convert to float'')"
    using wait_time_overflow eq by simp
  show ?case
    by (simp add: loop_retry_overflow [where net = net, OF lt cl w])
next
  case (Suc n)
  then have lt: "attempt + 1 \<le> retries" using big by simp
  have cl: "classify (net (nat attempt)) = Retry (error_text (net (nat attempt)))"
    by (rule classify_retryable [OF retr])
  have w: "wait_time (attempt + 1) = Inr (RETRY_DELAY * 2 ^ nat attempt)"
    using Suc.prems by (intro wait_time_small) auto
  have nat_eq: "nat (attempt + 1) = Suc (nat attempt)" using Suc.prems by simp
  have "make_gc_loop net retries (attempt + 1) (Some (error_text (net (nat attempt))))
          (done @ [Request, Sleep (RETRY_DELAY * 2 ^ nat attempt)]) =
      \<lparr>result = Inl (OverflowError ''int too large to convert to float''),
       trace = (done @ [Request, Sleep (RETRY_DELAY * 2 ^ nat attempt)])
          @ backoff_trace (nat (attempt + 1)) (Suc n)\<rparr>"
    using Suc.prems by (intro Suc.IH) auto
  then show ?case
    by (simp add: loop_retry_sleep [where net = net, OF lt cl w] nat_eq)
qed


text \<open>
  C3. When the first response carries a status code in [400, 500) other than 429,
  \<^verbatim>\<open>make_gc_request\<close> raises the client error after that one request: the whole
  trace is the one request, so there is no retry, no sleep and no further request. A 404
  is such a status.
\<close>

theorem client_error_no_retry:
  assumes "0 \<le> retries" and "net 0 = HTTPStatusError status_code e"
    and "400 \<le> status_code" and "status_code < 500" and "status_code \<noteq> 429"
  shows "make_gc_request net retries =
    \<lparr>result = Inl (WeatherAPIError (''Client error: '' @ e)), trace = [Request]\<rparr>"
  unfolding make_gc_request_def
  using client_error_stops_loop [where net = net and attempt = 0 and retries = retries
      and status_code = status_code and e = e and last_error = None and ?done = "[]"] assms
  by simp

theorem client_error_no_retry_witness:
  "(0::int) \<le> MAX_RETRIES \<and> always_404 0 = HTTPStatusError 404 ''Not Found''
   \<and> make_gc_request always_404 MAX_RETRIES =
       \<lparr>result = Inl (WeatherAPIError ''Client error: Not Found''), trace = [Request]\<rparr>
   \<and> count_requests (trace (make_gc_request always_404 MAX_RETRIES)) = 1
   \<and> delays (trace (make_gc_request always_404 MAX_RETRIES)) = []"
  using client_error_no_retry [of MAX_RETRIES always_404 404 "''Not Found''"]
  by (simp add: always_404_def MAX_RETRIES_def)

text \<open>
  C4, amended. For every number of retries \<open>r\<close> with \<open>0 \<le> r \<le> 1024\<close> and outcomes
  that are all retryable (status 429, a status of 500 or more, or a transport-level
  error), \<^verbatim>\<open>make_gc_request\<close> sends exactly \<open>r + 1\<close> requests, on the schedule of
  the specification, and then raises the exhausted-retries error, which carries the text
  of the last attempt's error.
\<close>

theorem retries_exhausted_bounded:
  assumes "0 \<le> r" and "r \<le> 1024" and "\<forall>k. retryable (net k)"
  shows "result (make_gc_request net r) =
      Inl (WeatherAPIError (''Failed after '' @ str_int (r + 1) @ '' attempts: ''
             @ error_text (net (nat r))))
    \<and> trace (make_gc_request net r) = backoff_trace 0 (nat r + 1)
    \<and> count_requests (trace (make_gc_request net r)) = nat r + 1"
proof -
  have "make_gc_loop net r 0 None [] =
      \<lparr>result = Inl (WeatherAPIError (''Failed after '' @ str_int (r + 1) @ '' attempts: ''
           @ error_text (net (nat r)))),
       trace = [] @ backoff_trace (nat 0) (Suc (nat (r - 0)))\<rparr>"
    using assms by (intro loop_exhausts) auto
  then show ?thesis
    by (simp add: make_gc_request_def count_backoff)
qed

text \<open>With the default of two retries, three responses 503 give three requests and the
  final failure.\<close>

theorem retries_exhausted_bounded_witness:
  "result (make_gc_request always_503 MAX_RETRIES) =
       Inl (WeatherAPIError ''Failed after 3 attempts: Service Unavailable'')
   \<and> trace (make_gc_request always_503 MAX_RETRIES) = [Request, Sleep 1, Request, Sleep 2, Request]
   \<and> count_requests (trace (make_gc_request always_503 MAX_RETRIES)) = 3"
  using retries_exhausted_bounded [of MAX_RETRIES always_503]
  by (simp add: always_503_def MAX_RETRIES_def RETRY_DELAY_def str_int_def str_nat.simps
      numeral_3_eq_3)

text \<open>
  The bound is needed. With \<open>retries = 1025\<close> and a server that always answers 503 the
  executor sends 1025 requests, not 1026, and what it raises is the
  \<^verbatim>\<open>OverflowError\<close> of the delay \<^verbatim>\<open>1.0 * 2 ** 1024\<close>, not the
  exhausted-retries error.
\<close>

theorem retries_overflow:
  "retryable (always_503 0)
   \<and> result (make_gc_request always_503 1025) =
       Inl (OverflowError ''int too large to convert to float'')
   \<and> count_requests (trace (make_gc_request always_503 1025)) = 1025"
proof -
  have "make_gc_loop always_503 1025 0 None [] =
      \<lparr>result = Inl (OverflowError ''int too large to convert to float''),
       trace = [] @ backoff_trace (nat 0) (Suc (nat (1024 - 0)))\<rparr>"
    by (intro loop_overflows) (auto simp: always_503_def)
  then show ?thesis
    by (simp add: make_gc_request_def count_backoff always_503_def)
qed

text \<open>
  The trace of the loop is the schedule of the specification for the attempts the
  outcomes permit. The attempt with index 1024 is the last that can be followed by a retry
  at all: the delay after it would be \<open>2 ^ 1024\<close> seconds, which no float holds.
\<close>

lemma classify_ends_run:
  "ends_run out \<Longrightarrow> \<exists>r. classify out = Return r \<or> (\<exists>e. classify out = Raise e)"
  by (cases out) auto

lemma classify_goes_on: "\<not> ends_run out \<Longrightarrow> classify out = Retry (error_text out)"
  by (cases out) auto

lemma attempts_from_pos: "0 < n \<Longrightarrow> 0 < attempts_from net k n"
  by (cases n) auto

lemma loop_final:
  "attempt \<le> retries \<Longrightarrow> ends_run (net (nat attempt)) \<Longrightarrow>
   trace (make_gc_loop net retries attempt last_error done) = done @ [Request]"
  using classify_ends_run [of "net (nat attempt)"]
  by (subst make_gc_loop.simps) auto

lemma loop_schedule:
  "0 \<le> attempt \<Longrightarrow> attempt \<le> 1024 \<or> retries < attempt \<Longrightarrow>
   trace (make_gc_loop net retries attempt last_error done) =
     done @ backoff_trace (nat attempt)
       (min (attempts_from net (nat attempt) (nat (retries + 1 - attempt))) (1025 - nat attempt))"
proof (induction net retries attempt last_error "done" rule: make_gc_loop.induct)
  case (1 net retries attempt last_error dn)
  show ?case
  proof (cases "attempt \<le> retries")
    case False
    then have "nat (retries + 1 - attempt) = 0" by simp
    with False show ?thesis by (simp add: loop_past_end)
  next
    case le: True
    with "1.prems" have small: "attempt \<le> 1024" by auto
    from le obtain m where fuel: "nat (retries + 1 - attempt) = Suc m" and m: "m = nat (retries - attempt)"
      by (cases "nat (retries + 1 - attempt)") auto
    have room: "1025 - nat attempt = Suc (1024 - nat attempt)"
      using small "1.prems"(1) by simp
    show ?thesis
    proof (cases "ends_run (net (nat attempt))")
      case True
      then show ?thesis
        using le by (simp add: loop_final fuel room)
    next
      case retr: False
      then have cl: "classify (net (nat attempt)) = Retry (error_text (net (nat attempt)))"
        by (rule classify_goes_on)
      show ?thesis
      proof (cases "attempt + 1 \<le> retries")
        case last: False
        with le have eq: "attempt = retries" by simp
        then have m0: "m = 0" using m by simp
        have "make_gc_loop net retries attempt last_error dn =
            make_gc_loop net retries (attempt + 1) (Some (error_text (net (nat attempt)))) (dn @ [Request])"
          by (rule loop_retry_last [where net = net, OF eq cl])
        also have "trace \<dots> = dn @ [Request]"
          using eq by (simp add: loop_past_end)
        finally show ?thesis
          using retr by (simp add: fuel m0 room)
      next
        case more: True
        show ?thesis
        proof (cases "wait_time (attempt + 1)")
          case (Inl x)
          then have a: "attempt = 1024"
            using small by (auto simp: wait_time_def split: if_splits)
          have tr: "trace (make_gc_loop net retries attempt last_error dn) = dn @ [Request]"
            by (simp add: loop_retry_overflow [where net = net, OF more cl Inl])
          have "0 < attempts_from net (nat attempt) (Suc m)"
            by (intro attempts_from_pos) simp
          moreover have "1025 - nat attempt = Suc 0" using a by simp
          ultimately have "min (attempts_from net (nat attempt) (Suc m)) (1025 - nat attempt) = Suc 0"
            by simp
          with tr show ?thesis
            by (simp add: fuel)
        next
          case (Inr w)
          then have w: "w = RETRY_DELAY * 2 ^ nat attempt" and a: "attempt \<le> 1023"
            by (auto simp: wait_time_def split: if_splits)
          have nat_eq: "nat (attempt + 1) = Suc (nat attempt)" using "1.prems"(1) by simp
          have fuel': "nat (retries + 1 - (attempt + 1)) = m" using m by simp
          from more m have "0 < m" by simp
          then obtain m' where m': "m = Suc m'" by (cases m) auto
          have pos: "0 < attempts_from net (Suc (nat attempt)) m"
            using m' by (intro attempts_from_pos) simp
          have room': "1025 - Suc (nat attempt) = Suc (1023 - nat attempt)"
            using a "1.prems"(1) by simp
          obtain j where j: "min (attempts_from net (Suc (nat attempt)) m) (1025 - Suc (nat attempt)) = Suc j"
            using pos room' by (cases "min (attempts_from net (Suc (nat attempt)) m) (1025 - Suc (nat attempt))") auto
          have step: "min (attempts_from net (nat attempt) (Suc m)) (1025 - nat attempt) = Suc (Suc j)"
            using retr j room room' by (simp add: min_def split: if_splits)
          have idx: "min (attempts_from net (nat (attempt + 1)) (nat (retries + 1 - (attempt + 1))))
              (1025 - nat (attempt + 1)) = Suc j"
            unfolding nat_eq fuel' by (rule j)
          have "make_gc_loop net retries attempt last_error dn =
              make_gc_loop net retries (attempt + 1) (Some (error_text (net (nat attempt))))
                (dn @ [Request, Sleep w])"
            by (rule loop_retry_sleep [where net = net, OF more cl Inr])
          also have "trace \<dots> = (dn @ [Request, Sleep w]) @ backoff_trace (nat (attempt + 1))
              (min (attempts_from net (nat (attempt + 1)) (nat (retries + 1 - (attempt + 1))))
                 (1025 - nat (attempt + 1)))"
            using "1.prems"(1) a by (intro "1.IH"(1) [OF le cl more Inr]) auto
          also have "\<dots> = dn @ backoff_trace (nat attempt) (Suc (Suc j))"
            by (simp only: idx) (simp add: nat_eq w)
          finally show ?thesis
            unfolding fuel step .
        qed
      qed
    qed
  qed
qed

text \<open>
  C5. The trace of every run is determined by the outcomes and the number of retries: a
  request, and after each attempt that neither succeeded nor failed fatally, while
  another attempt is permitted, a sleep followed by the next request. The sleep before the
  \<open>k\<close>-th retry lasts \<open>RETRY_DELAY * 2 ^ (k - 1)\<close> seconds. The run stops with the
  first attempt that succeeds or fails fatally and with the last permitted attempt, and
  the trace ends with that request: no sleep follows a success or the final attempt.
  (The bound 1025 on the number of attempts is that of the delay a float can hold.)
\<close>

theorem backoff_schedule:
  "trace (make_gc_request net retries) = backoff_trace 0 (min (attempts net retries) 1025)
   \<and> delays (trace (make_gc_request net retries)) =
       map (\<lambda>k. RETRY_DELAY * 2 ^ k) [0 ..< min (attempts net retries) 1025 - 1]"
proof -
  have "trace (make_gc_loop net retries 0 None []) =
      [] @ backoff_trace (nat 0) (min (attempts_from net (nat 0) (nat (retries + 1 - 0))) (1025 - nat 0))"
    by (rule loop_schedule) auto
  then have tr: "trace (make_gc_request net retries) = backoff_trace 0 (min (attempts net retries) 1025)"
    by (simp add: make_gc_request_def attempts_def)
  show ?thesis
    unfolding tr using delays_backoff [of 0 "min (attempts net retries) 1025"] by simp
qed

text \<open>
  An immediate success and a 404 give one request and no sleep; two failures and a success
  give the delays 1 and 2 and no sleep after the success; three failures with two retries
  give the delays 1 and 2 and no sleep after the last attempt; with three retries a third
  delay of 4 follows.
\<close>

theorem backoff_schedule_witness:
  "trace (make_gc_request always_ok MAX_RETRIES) = [Request]
   \<and> trace (make_gc_request always_404 MAX_RETRIES) = [Request]
   \<and> trace (make_gc_request fail_fail_ok MAX_RETRIES) = [Request, Sleep 1, Request, Sleep 2, Request]
   \<and> delays (trace (make_gc_request fail_fail_ok MAX_RETRIES)) = [1, 2]
   \<and> trace (make_gc_request always_503 MAX_RETRIES) = [Request, Sleep 1, Request, Sleep 2, Request]
   \<and> trace (make_gc_request always_503 3) =
       [Request, Sleep 1, Request, Sleep 2, Request, Sleep 4, Request]"
proof -
  have three: "nat (MAX_RETRIES + 1) = Suc (Suc (Suc 0))"
    by (simp add: MAX_RETRIES_def)
  have four: "nat (3 + 1) = Suc (Suc (Suc (Suc 0)))"
    by simp
  have a: "attempts always_ok MAX_RETRIES = Suc 0" "attempts always_404 MAX_RETRIES = Suc 0"
    "attempts fail_fail_ok MAX_RETRIES = Suc (Suc (Suc 0))"
    "attempts always_503 MAX_RETRIES = Suc (Suc (Suc 0))"
    "attempts always_503 3 = Suc (Suc (Suc (Suc 0)))"
    unfolding attempts_def three four
    by (simp_all add: always_ok_def always_404_def fail_fail_ok_def always_503_def)
  have m: "min (Suc 0) 1025 = Suc 0" "min (Suc (Suc (Suc 0))) 1025 = Suc (Suc (Suc 0))"
    "min (Suc (Suc (Suc (Suc 0)))) 1025 = Suc (Suc (Suc (Suc 0)))"
    by simp_all
  show ?thesis
    using backoff_schedule [of always_ok MAX_RETRIES]
      backoff_schedule [of always_404 MAX_RETRIES]
      backoff_schedule [of fail_fail_ok MAX_RETRIES]
      backoff_schedule [of always_503 MAX_RETRIES]
      backoff_schedule [of always_503 3]
    unfolding a m by (simp add: RETRY_DELAY_def)
qed

section \<open>Properties of the formatter\<close>

text \<open>On a list of JSON objects the loop of the source computes what the specification
  describes: the blocks of the retained entries, after those already collected.\<close>

lemma entry_date_PDict:
  "format_value str_of (case map_of kvs ''date'' of None \<Rightarrow> PStr ''Unknown date'' | Some v \<Rightarrow> v)
     = entry_date str_of (PDict kvs)"
  by (simp add: entry_date_def format_value_def split: option.splits)

lemma entry_text_PDict:
  "format_value str_of
     (case map_of kvs ''text'' of None \<Rightarrow> PStr ''No forecast available'' | Some v \<Rightarrow> v)
     = entry_text str_of (PDict kvs)"
  by (simp add: entry_text_def format_value_def split: option.splits)

lemma label_is_night:
  "((case map_of kvs ''periodLabel'' of None \<Rightarrow> PNone | Some v \<Rightarrow> v) = PStr ''Night'')
     = (period_label (PDict kvs) = Some (PStr ''Night''))"
  by (simp add: period_label_def split: option.splits)

lemma format_loop_skip:
  "period_label (PDict kvs) = Some (PStr ''Night'') \<or> days_added \<ge> max_days \<Longrightarrow>
   format_loop str_of max_days (PDict kvs # rest) forecasts days_added =
     format_loop str_of max_days rest forecasts days_added"
  by (auto simp: label_is_night)

lemma format_loop_keep:
  "period_label (PDict kvs) \<noteq> Some (PStr ''Night'') \<Longrightarrow> days_added < max_days \<Longrightarrow>
   format_loop str_of max_days (PDict kvs # rest) forecasts days_added =
     format_loop str_of max_days rest (forecasts @ [entry_block str_of (PDict kvs)])
       (days_added + 1)"
  by (simp add: label_is_night entry_date_PDict entry_text_PDict entry_block_def)

lemma format_loop_dicts:
  "list_all is_dict ds \<Longrightarrow>
   format_loop str_of max_days ds forecasts days_added =
     Inr (forecasts @ map (entry_block str_of)
       (take (nat (max_days - days_added))
          (filter (\<lambda>d. period_label d \<noteq> Some (PStr ''Night'')) ds)))"
proof (induction ds arbitrary: forecasts days_added)
  case Nil
  then show ?case by simp
next
  case (Cons d ds)
  then obtain kvs where d: "d = PDict kvs" by (cases d) auto
  from Cons.prems have rest: "list_all is_dict ds" by simp
  note IH = Cons.IH [OF rest]
  show ?case
  proof (cases "period_label d = Some (PStr ''Night'') \<or> days_added \<ge> max_days")
    case True
    then have "format_loop str_of max_days (d # ds) forecasts days_added =
        format_loop str_of max_days ds forecasts days_added"
      unfolding d by (rule format_loop_skip)
    also have "\<dots> = Inr (forecasts @ map (entry_block str_of)
       (take (nat (max_days - days_added))
          (filter (\<lambda>d. period_label d \<noteq> Some (PStr ''Night'')) ds)))"
      by (rule IH)
    also have "take (nat (max_days - days_added))
          (filter (\<lambda>d. period_label d \<noteq> Some (PStr ''Night'')) ds) =
        take (nat (max_days - days_added))
          (filter (\<lambda>d. period_label d \<noteq> Some (PStr ''Night'')) (d # ds))"
      using True by auto
    finally show ?thesis .
  next
    case False
    then have notnight: "period_label d \<noteq> Some (PStr ''Night'')"
      and lt: "days_added < max_days" by auto
    have suc: "nat (max_days - days_added) = Suc (nat (max_days - (days_added + 1)))"
      using lt by simp
    have "format_loop str_of max_days (d # ds) forecasts days_added =
        format_loop str_of max_days ds (forecasts @ [entry_block str_of d]) (days_added + 1)"
      using notnight lt unfolding d by (rule format_loop_keep)
    also have "\<dots> = Inr ((forecasts @ [entry_block str_of d]) @ map (entry_block str_of)
       (take (nat (max_days - (days_added + 1)))
          (filter (\<lambda>d. period_label d \<noteq> Some (PStr ''Night'')) ds)))"
      by (rule IH)
    also have "(forecasts @ [entry_block str_of d]) @ map (entry_block str_of)
       (take (nat (max_days - (days_added + 1)))
          (filter (\<lambda>d. period_label d \<noteq> Some (PStr ''Night'')) ds)) =
       forecasts @ map (entry_block str_of)
       (take (nat (max_days - days_added))
          (filter (\<lambda>d. period_label d \<noteq> Some (PStr ''Night'')) (d # ds)))"
      using notnight by (simp add: suc)
    finally show ?thesis .
  qed
qed

lemma format_forecast_dicts:
  "list_all is_dict ds \<Longrightarrow>
   format_forecast str_of (PList ds) max_days = Inr (rendered str_of (retained max_days ds))"
  by (simp add: format_forecast_def format_loop_dicts rendered_def retained_def)

text \<open>Every joined string occurs in the result of a join.\<close>

lemma sublist_py_join: "x \<in> set xs \<Longrightarrow> sublist x (py_join sep xs)"
proof (induction sep xs rule: py_join.induct)
  case (3 sep y z zs)
  show ?case
  proof (cases "x = y")
    case True
    then show ?thesis by (simp add: sublist_append_rightI)
  next
    case False
    with 3 have "sublist x (py_join sep (z # zs))" by simp
    moreover have "sublist (py_join sep (z # zs)) ((y @ sep) @ py_join sep (z # zs))"
      by (rule sublist_append_leftI)
    ultimately have "sublist x ((y @ sep) @ py_join sep (z # zs))"
      by (rule sublist_order.order_trans)
    then show ?thesis by simp
  qed
qed auto

lemma sublist_text_block: "sublist (entry_text str_of d) (entry_block str_of d)"
proof -
  have "entry_block str_of d =
      (''\<newline>'' @ entry_date str_of d @ '':\<newline>Forecast: '') @ entry_text str_of d @ ''\<newline>''"
    by (simp add: entry_block_def)
  then show ?thesis by (metis sublist_appendI)
qed

text \<open>
  C10. \<^verbatim>\<open>format_forecast\<close> retains every entry whose period label is not exactly
  \<^verbatim>\<open>"Night"\<close>: an entry without a label or with any other label (\<^verbatim>\<open>"day"\<close>,
  \<^verbatim>\<open>"Evening"\<close>) is rendered and counted towards the cap \<open>max_days\<close> like an
  entry labelled \<^verbatim>\<open>"Day"\<close>. The output is the rendering of the first \<open>max_days\<close>
  entries that are not labelled \<^verbatim>\<open>"Night"\<close>, whatever their labels.
\<close>

theorem non_night_entries_retained:
  assumes "list_all is_dict ds"
  shows "format_forecast str_of (PList ds) max_days =
    Inr (rendered str_of
      (take (nat max_days) (filter (\<lambda>d. period_label d \<noteq> Some (PStr ''Night'')) ds)))"
  using format_forecast_dicts [OF assms] by (simp add: retained_def)

theorem non_night_entries_retained_witness:
  "list_all is_dict odd_labels
   \<and> format_forecast str_basic (PList odd_labels) 3 =
       Inr (''\<newline>d1:\<newline>Forecast: t1\<newline>'' @ ''\<newline>---\<newline>''
          @ ''\<newline>d2:\<newline>Forecast: t2\<newline>'' @ ''\<newline>---\<newline>''
          @ ''\<newline>d4:\<newline>Forecast: t4\<newline>'')"
  using non_night_entries_retained [of odd_labels str_basic 3]
  by (simp add: odd_labels_def day_entry_def rendered_def period_label_def entry_block_def
      entry_date_def entry_text_def format_value_def numeral_3_eq_3)

text \<open>
  C8. Each retained entry is rendered as the block of a line with the date and a line
  \<^verbatim>\<open>Forecast: \<close> with the narrative text; an absent date is replaced by
  \<^verbatim>\<open>Unknown date\<close>, an absent text by \<^verbatim>\<open>No forecast available\<close>, a date or
  a text that is a string is inserted as it is; and the blocks of the retained entries are
  joined with the separator \<^verbatim>\<open>"\n---\n"\<close>.
\<close>

theorem blocks_and_separator:
  assumes "list_all is_dict ds"
  shows "(retained max_days ds \<noteq> [] \<longrightarrow>
      format_forecast str_of (PList ds) max_days =
        Inr (py_join ''\<newline>---\<newline>''
          (map (\<lambda>d. ''\<newline>'' @ entry_date str_of d @ '':\<newline>Forecast: ''
                     @ entry_text str_of d @ ''\<newline>'')
             (retained max_days ds))))
    \<and> (\<forall>d. field d ''date'' = None \<longrightarrow> entry_date str_of d = ''Unknown date'')
    \<and> (\<forall>d. field d ''text'' = None \<longrightarrow> entry_text str_of d = ''No forecast available'')
    \<and> (\<forall>d s. field d ''date'' = Some (PStr s) \<longrightarrow> entry_date str_of d = s)
    \<and> (\<forall>d s. field d ''text'' = Some (PStr s) \<longrightarrow> entry_text str_of d = s)"
proof -
  have block: "entry_block str_of =
      (\<lambda>d. ''\<newline>'' @ entry_date str_of d @ '':\<newline>Forecast: '' @ entry_text str_of d @ ''\<newline>'')"
    by (simp add: fun_eq_iff entry_block_def)
  have "retained max_days ds \<noteq> [] \<longrightarrow>
      format_forecast str_of (PList ds) max_days =
        Inr (py_join ''\<newline>---\<newline>'' (map (entry_block str_of) (retained max_days ds)))"
    using format_forecast_dicts [OF assms, of str_of max_days] by (simp add: rendered_def)
  then show ?thesis
    unfolding block by (simp add: entry_date_def entry_text_def format_value_def)
qed

theorem blocks_and_separator_witness:
  "format_forecast str_basic
     (PList [PDict [(''text'', PStr ''Sunny'')], PDict [(''date'', PStr ''2023-01-02'')]]) 5 =
     Inr (''\<newline>Unknown date:\<newline>Forecast: Sunny\<newline>'' @ ''\<newline>---\<newline>''
          @ ''\<newline>2023-01-02:\<newline>Forecast: No forecast available\<newline>'')"
  using blocks_and_separator
    [of "[PDict [(''text'', PStr ''Sunny'')], PDict [(''date'', PStr ''2023-01-02'')]]" 5 str_basic]
  by (simp add: retained_def period_label_def entry_date_def entry_text_def format_value_def)

text \<open>
  C2, amended. For a daily forecast whose entries are labelled \<^verbatim>\<open>"Day"\<close> or
  \<^verbatim>\<open>"Night"\<close>, in any order, the output is exactly the rendering of the first
  \<open>min N max_days\<close> entries labelled \<^verbatim>\<open>"Day"\<close>, in their order, where \<open>N\<close> is the
  number of such entries: no entry labelled \<^verbatim>\<open>"Night"\<close> is rendered, the entries past
  the cap are ignored without an error, and the text of every rendered entry occurs in the
  output.
\<close>

theorem day_entries_rendered:
  assumes "list_all (\<lambda>d. is_dict d \<and>
      (period_label d = Some (PStr ''Day'') \<or> period_label d = Some (PStr ''Night''))) ds"
  shows "format_forecast str_of (PList ds) max_days =
      Inr (rendered str_of
        (take (nat max_days) (filter (\<lambda>d. period_label d = Some (PStr ''Day'')) ds)))
    \<and> length (take (nat max_days) (filter (\<lambda>d. period_label d = Some (PStr ''Day'')) ds)) =
        min (length (filter (\<lambda>d. period_label d = Some (PStr ''Day'')) ds)) (nat max_days)
    \<and> (\<forall>d \<in> set (take (nat max_days) (filter (\<lambda>d. period_label d = Some (PStr ''Day'')) ds)).
         sublist (entry_text str_of d)
           (rendered str_of
             (take (nat max_days) (filter (\<lambda>d. period_label d = Some (PStr ''Day'')) ds))))"
proof -
  have dicts: "list_all is_dict ds"
    using assms by (simp add: list_all_iff)
  have "filter (\<lambda>d. period_label d \<noteq> Some (PStr ''Night'')) ds =
      filter (\<lambda>d. period_label d = Some (PStr ''Day'')) ds"
    using assms by (intro filter_cong) (auto simp: list_all_iff)
  then have out: "format_forecast str_of (PList ds) max_days =
      Inr (rendered str_of
        (take (nat max_days) (filter (\<lambda>d. period_label d = Some (PStr ''Day'')) ds)))"
    using format_forecast_dicts [OF dicts, of str_of max_days] by (simp add: retained_def)
  have "sublist (entry_text str_of d) (rendered str_of es)" if "d \<in> set es" for d es
  proof -
    have "sublist (entry_block str_of d) (py_join ''\<newline>---\<newline>'' (map (entry_block str_of) es))"
      using that by (intro sublist_py_join) simp
    moreover have "es \<noteq> []" using that by auto
    ultimately show ?thesis
      using sublist_text_block [of str_of d] by (auto simp: rendered_def intro: sublist_order.order_trans)
  qed
  with out show ?thesis by simp
qed

theorem day_entries_rendered_witness:
  "format_forecast str_basic (PList sample_daily) 5 =
     Inr (''\<newline>2023-01-01:\<newline>Forecast: Sunny with cloudy periods\<newline>'' @ ''\<newline>---\<newline>''
        @ ''\<newline>2023-01-02:\<newline>Forecast: Cloudy with chance of rain\<newline>'' @ ''\<newline>---\<newline>''
        @ ''\<newline>2023-01-03:\<newline>Forecast: Sunny\<newline>'')"
  using day_entries_rendered [of sample_daily str_basic 5]
  by (simp add: sample_daily_def day_entry_def rendered_def period_label_def entry_block_def
      entry_date_def entry_text_def format_value_def)

text \<open>
  The text of a discarded \<^verbatim>\<open>"Night"\<close> entry can still occur in the output: here the
  day and the night of the same date both read \<^verbatim>\<open>Clear\<close>.
\<close>

theorem night_text_counterexample:
  "period_label (clear_day_night ! 1) = Some (PStr ''Night'')
   \<and> entry_text str_basic (clear_day_night ! 1) = ''Clear''
   \<and> format_forecast str_basic (PList clear_day_night) 5 =
       Inr ''\<newline>2023-01-01:\<newline>Forecast: Clear\<newline>''
   \<and> sublist ''Clear'' ''\<newline>2023-01-01:\<newline>Forecast: Clear\<newline>''"
proof -
  have "''\<newline>2023-01-01:\<newline>Forecast: Clear\<newline>'' = ''\<newline>2023-01-01:\<newline>Forecast: '' @ ''Clear'' @ ''\<newline>''"
    by simp
  then have "sublist ''Clear'' ''\<newline>2023-01-01:\<newline>Forecast: Clear\<newline>''"
    by (metis sublist_appendI)
  then show ?thesis
    by (simp add: clear_day_night_def day_entry_def period_label_def entry_text_def
        format_value_def format_forecast_def)
qed

end
